theory Spec2Isabelle
  imports Complex_Main
begin

section \<open>Errors and matrices\<close>

text \<open>
  The exceptions the two source files can raise. \<open>RuntimeError\<close> is the error of
  the symbolic matrix library on a dimension mismatch.
\<close>

datatype error =
  KeyError | ValueError | RuntimeError | IndexError
  | NotImplementedError | NameError | TypeError

text \<open>
  A dense matrix with its two dimensions kept explicitly (so that an \<open>n \<times> 0\<close> and a
  \<open>0 \<times> m\<close> matrix keep their shape), stored row by row. The entries are the real
  values denoted by the symbolic expressions of the matrix library.
\<close>

datatype mat = Mat (nr: nat) (nc: nat) (elts: "real list list")

definition wf_mat :: "mat \<Rightarrow> bool" where
  "wf_mat A = (length (elts A) = nr A \<and> list_all (\<lambda>r. length r = nc A) (elts A))"

definition el :: "mat \<Rightarrow> nat \<Rightarrow> nat \<Rightarrow> real" where
  "el A i j = elts A ! i ! j"

definition tab :: "nat \<Rightarrow> nat \<Rightarrow> (nat \<Rightarrow> nat \<Rightarrow> real) \<Rightarrow> mat" where
  "tab n m f = Mat n m (map (\<lambda>i. map (f i) [0..<m]) [0..<n])"

subsection \<open>The operations of the matrix library used by the source\<close>

definition is_scalar :: "mat \<Rightarrow> bool" where
  "is_scalar A = (nr A = 1 \<and> nc A = 1)"

text \<open>
  An element-wise binary operation: a \<open>1 \<times> 1\<close> operand is broadcast, equal shapes
  are combined entry by entry, anything else is a dimension mismatch.
\<close>

definition ebin :: "(real \<Rightarrow> real \<Rightarrow> real) \<Rightarrow> mat \<Rightarrow> mat \<Rightarrow> error + mat" where
  "ebin f A B =
     (if is_scalar A then Inr (tab (nr B) (nc B) (\<lambda>i j. f (el A 0 0) (el B i j)))
      else if is_scalar B then Inr (tab (nr A) (nc A) (\<lambda>i j. f (el A i j) (el B 0 0)))
      else if nr A = nr B \<and> nc A = nc B
        then Inr (tab (nr A) (nc A) (\<lambda>i j. f (el A i j) (el B i j)))
      else Inl RuntimeError)"

definition eadd :: "mat \<Rightarrow> mat \<Rightarrow> error + mat" where
  "eadd = ebin (\<lambda>a b. a + b)"

definition esub :: "mat \<Rightarrow> mat \<Rightarrow> error + mat" where
  "esub = ebin (\<lambda>a b. a - b)"

definition emul :: "mat \<Rightarrow> mat \<Rightarrow> error + mat" where
  "emul = ebin (\<lambda>a b. a * b)"

definition ediv :: "mat \<Rightarrow> mat \<Rightarrow> error + mat" where
  "ediv = ebin (\<lambda>a b. a / b)"

definition emap :: "(real \<Rightarrow> real) \<Rightarrow> mat \<Rightarrow> mat" where
  "emap f A = tab (nr A) (nc A) (\<lambda>i j. f (el A i j))"

text \<open>A Python number times a matrix.\<close>

definition smul :: "real \<Rightarrow> mat \<Rightarrow> mat" where
  "smul c A = emap (\<lambda>v. c * v) A"

text \<open>\<open>A ** 2\<close>, \<open>sqrt(A)\<close> and \<open>exp(A)\<close>, entry by entry.\<close>

definition sq_m :: "mat \<Rightarrow> mat" where
  "sq_m A = emap (\<lambda>v. v ^ 2) A"

definition sqrt_m :: "mat \<Rightarrow> mat" where
  "sqrt_m A = emap sqrt A"

definition exp_m :: "mat \<Rightarrow> mat" where
  "exp_m A = emap exp A"

text \<open>\<open>A.T\<close>\<close>

definition mT :: "mat \<Rightarrow> mat" where
  "mT A = tab (nc A) (nr A) (\<lambda>i j. el A j i)"

text \<open>The matrix product of linear algebra.\<close>

definition matprod :: "mat \<Rightarrow> mat \<Rightarrow> mat" where
  "matprod A B = tab (nr A) (nc B) (\<lambda>i j. \<Sum>k<nc A. el A i k * el B k j)"

text \<open>
  \<open>mtimes(A, B)\<close>: with a \<open>1 \<times> 1\<close> operand it is the element-wise product, otherwise
  the matrix product, which needs the inner dimensions to agree.
\<close>

definition mtimes :: "mat \<Rightarrow> mat \<Rightarrow> error + mat" where
  "mtimes A B =
     (if is_scalar A \<or> is_scalar B then emul A B
      else if nc A = nr B then Inr (matprod A B)
      else Inl RuntimeError)"

text \<open>\<open>sum2(A)\<close>: the sum of every row, an \<open>n \<times> 1\<close> column.\<close>

definition sum2 :: "mat \<Rightarrow> mat" where
  "sum2 A = tab (nr A) 1 (\<lambda>i j. \<Sum>k<nc A. el A i k)"

text \<open>\<open>repmat(A, n, m)\<close>: \<open>A\<close> tiled \<open>n\<close> times downwards and \<open>m\<close> times to the right.\<close>

definition repmat :: "mat \<Rightarrow> nat \<Rightarrow> nat \<Rightarrow> mat" where
  "repmat A n m = tab (n * nr A) (m * nc A) (\<lambda>i j. el A (i mod nr A) (j mod nc A))"

text \<open>\<open>v.reshape(1,-1)\<close> of a one-dimensional array: one row.\<close>

definition reshape_row :: "real list \<Rightarrow> mat" where
  "reshape_row v = Mat 1 (length v) [v]"

text \<open>
  \<open>SX(T,)\<close> is \<open>SX(T)\<close>: the constructor with one number builds the \<open>1 \<times> 1\<close> matrix
  holding that number. \<open>ret[:] = p\<close> overwrites every entry with \<open>p\<close>.
\<close>

definition SX_num :: "real \<Rightarrow> mat" where
  "SX_num v = Mat 1 1 [[v]]"

definition assign_all :: "mat \<Rightarrow> real \<Rightarrow> mat" where
  "assign_all A p = tab (nr A) (nc A) (\<lambda>i j. p)"

text \<open>
  \<open>horzcat\<close> and \<open>vertcat\<close>. The Python list \<open>[]\<close> the accumulators start from is the
  empty matrix; an empty operand is skipped.
\<close>

definition empty_m :: mat where
  "empty_m = Mat 0 0 []"

definition is_empty :: "mat \<Rightarrow> bool" where
  "is_empty A = (nr A = 0 \<or> nc A = 0)"

definition horzcat :: "mat \<Rightarrow> mat \<Rightarrow> error + mat" where
  "horzcat A B =
     (if is_empty A then Inr B
      else if is_empty B then Inr A
      else if nr A = nr B
        then Inr (tab (nr A) (nc A + nc B)
                    (\<lambda>i j. if j < nc A then el A i j else el B i (j - nc A)))
      else Inl RuntimeError)"

definition vertcat :: "mat \<Rightarrow> mat \<Rightarrow> error + mat" where
  "vertcat A B =
     (if is_empty A then Inr B
      else if is_empty B then Inr A
      else if nc A = nc B
        then Inr (tab (nr A + nr B) (nc A)
                    (\<lambda>i j. if i < nr A then el A i j else el B (i - nr A) j))
      else Inl RuntimeError)"

text \<open>\<open>beta[:,i]\<close>: column \<open>i\<close>.\<close>

definition col :: "mat \<Rightarrow> nat \<Rightarrow> mat" where
  "col A i = tab (nr A) 1 (\<lambda>r j. el A r i)"

text \<open>\<open>xs[i]\<close> on a Python list.\<close>

definition nth_err :: "'a list \<Rightarrow> nat \<Rightarrow> error + 'a" where
  "nth_err xs i = (if i < length xs then Inr (xs ! i) else Inl IndexError)"

section \<open>The kernels of gp\_models\_utils\_casadi.py\<close>

text \<open>
  The hyperparameter dictionary, with the three keys the kernels read; \<open>None\<close> is a
  missing key. The length scales and the linear variances are one-dimensional arrays,
  the RBF variance is a number.
\<close>

record hyp =
  rbf_lengthscales :: "real list option"
  rbf_variance :: "real option"
  lin_variances :: "real list option"

definition unscaled_dist :: "mat \<Rightarrow> mat \<Rightarrow> error + mat" where
  "unscaled_dist x y =
     (let n_x = nr x; n_y = nr y;
          x1sq = sum2 (sq_m x);
          x2sq = sum2 (sq_m y)
      in case mtimes x (mT y) of Inl e \<Rightarrow> Inl e | Inr xy \<Rightarrow>
         case eadd (smul (- 2) xy) (repmat x1sq 1 n_y) of Inl e \<Rightarrow> Inl e | Inr s \<Rightarrow>
         case eadd s (repmat (mT x2sq) n_x 1) of Inl e \<Rightarrow> Inl e | Inr r2 \<Rightarrow>
         Inr (sqrt_m r2))"

definition k_rbf :: "mat \<Rightarrow> hyp \<Rightarrow> mat option \<Rightarrow> bool \<Rightarrow> error + mat" where
  "k_rbf x h y diag_only =
     (case rbf_lengthscales h of None \<Rightarrow> Inl KeyError | Some lenscales \<Rightarrow>
      case rbf_variance h of None \<Rightarrow> Inl KeyError | Some precision \<Rightarrow>
      let T = nr x in
      if diag_only then Inr (assign_all (SX_num (real T)) precision)
      else
        let n_x = nr x;
            y' = (case y of None \<Rightarrow> x | Some v \<Rightarrow> v);
            n_y = nr y';
            lens_x = repmat (reshape_row lenscales) n_x 1;
            lens_y = repmat (reshape_row lenscales) n_y 1
        in case ediv x lens_x of Inl e \<Rightarrow> Inl e | Inr xs \<Rightarrow>
           case ediv y' lens_y of Inl e \<Rightarrow> Inl e | Inr ys \<Rightarrow>
           case unscaled_dist xs ys of Inl e \<Rightarrow> Inl e | Inr r \<Rightarrow>
           Inr (smul precision (exp_m (smul (- 0.5) (sq_m r)))))"

text \<open>\<open>_k_lin\<close> takes \<open>diag_only\<close> and never reads it.\<close>

definition k_lin :: "mat \<Rightarrow> hyp \<Rightarrow> mat option \<Rightarrow> bool \<Rightarrow> error + mat" where
  "k_lin x h y diag_only =
     (case lin_variances h of None \<Rightarrow> Inl KeyError | Some var \<Rightarrow>
      let n_x = nr x;
          var_x = sqrt_m (repmat (reshape_row var) n_x 1);
          (var_y, y') = (case y of None \<Rightarrow> (var_x, x)
                         | Some v \<Rightarrow> (sqrt_m (repmat (reshape_row var) (nr v) 1), v))
      in case emul x var_x of Inl e \<Rightarrow> Inl e | Inr xv \<Rightarrow>
         case emul y' var_y of Inl e \<Rightarrow> Inl e | Inr yv \<Rightarrow>
         mtimes xv (mT yv))"

definition k_prod_lin_rbf :: "mat \<Rightarrow> hyp \<Rightarrow> mat option \<Rightarrow> bool \<Rightarrow> error + mat" where
  "k_prod_lin_rbf x h y diag_only =
     (case lin_variances h of None \<Rightarrow> Inl KeyError | Some lin_vars \<Rightarrow>
      case rbf_lengthscales h of None \<Rightarrow> Inl KeyError | Some lens \<Rightarrow>
      case rbf_variance h of None \<Rightarrow> Inl KeyError | Some rbf_var \<Rightarrow>
      case k_rbf x h y diag_only of Inl e \<Rightarrow> Inl e | Inr a \<Rightarrow>
      case k_lin x h y diag_only of Inl e \<Rightarrow> Inl e | Inr b \<Rightarrow>
      emul a b)"

type_synonym kernel = "mat \<Rightarrow> hyp \<Rightarrow> mat option \<Rightarrow> bool \<Rightarrow> error + mat"

definition get_kernel_function :: "string \<Rightarrow> error + kernel" where
  "get_kernel_function kern_type =
     (if kern_type = ''rbf'' then Inr k_rbf
      else if kern_type = ''prod_lin_rbf'' then Inr k_prod_lin_rbf
      else Inl ValueError)"

section \<open>Prediction\<close>

text \<open>
  \<open>gp_pred\<close> returns the pair \<open>(pred_mu, pred_sigm)\<close> when \<open>pred_var\<close> holds and
  \<open>pred_mu\<close> alone otherwise: the second component is \<open>None\<close> then. The kernel and
  the product with \<open>beta\<close> are evaluated before \<open>pred_var\<close> is looked at; \<open>n_pred\<close> is read
  and not used.
\<close>

definition gp_pred ::
  "mat \<Rightarrow> kernel \<Rightarrow> mat \<Rightarrow> mat \<Rightarrow> hyp \<Rightarrow> mat option \<Rightarrow> bool \<Rightarrow> error + (mat \<times> mat option)" where
  "gp_pred x kern beta x_train h k_inv_training pred_var =
     (case kern x h (Some x_train) False of Inl e \<Rightarrow> Inl e | Inr k_star \<Rightarrow>
      case mtimes k_star beta of Inl e \<Rightarrow> Inl e | Inr pred_mu \<Rightarrow>
      if pred_var then
        (case k_inv_training of None \<Rightarrow> Inl ValueError | Some k_inv \<Rightarrow>
         case kern x h None True of Inl e \<Rightarrow> Inl e | Inr k_expl_var \<Rightarrow>
         case mtimes k_star k_inv of Inl e \<Rightarrow> Inl e | Inr kk \<Rightarrow>
         case emul kk k_star of Inl e \<Rightarrow> Inl e | Inr p \<Rightarrow>
         case esub k_expl_var (sum2 p) of Inl e \<Rightarrow> Inl e | Inr pred_sigm \<Rightarrow>
         Inr (pred_mu, Some pred_sigm))
      else Inr (pred_mu, None))"

text \<open>
  The mean output of the function graph \<open>pred_func\<close> as a function of its input: the
  expression \<open>gp_pred\<close> builds on the symbolic input, evaluated at a point, has the
  value \<open>gp_pred\<close> computes at that point.
\<close>

definition pred_mean_fn ::
  "kernel \<Rightarrow> mat \<Rightarrow> mat \<Rightarrow> hyp \<Rightarrow> mat option \<Rightarrow> bool \<Rightarrow> mat \<Rightarrow> error + mat" where
  "pred_mean_fn kern beta x_train h k_inv pred_var z =
     (case gp_pred z kern beta x_train h k_inv pred_var of
        Inl e \<Rightarrow> Inl e | Inr r \<Rightarrow> Inr (fst r))"

text \<open>
  The differentiation of the external library is a parameter: \<open>jac f x\<close> is the
  Jacobian at \<open>x\<close> of the output \<open>f\<close> of a function graph with respect to its input.
\<close>

type_synonym jacobian_op = "(mat \<Rightarrow> error + mat) \<Rightarrow> mat \<Rightarrow> mat"

text \<open>
  One round of the loop of \<open>gp_pred_function\<close> over the accumulators
  \<open>(mu_all, pred_sigma_all, jac_mu_all)\<close>.
\<close>

definition gp_iter ::
  "jacobian_op \<Rightarrow> mat \<Rightarrow> mat \<Rightarrow> mat \<Rightarrow> hyp list \<Rightarrow> string list \<Rightarrow> mat list option \<Rightarrow>
   bool \<Rightarrow> bool \<Rightarrow> mat \<times> mat \<times> mat \<Rightarrow> nat \<Rightarrow> error + (mat \<times> mat \<times> mat)" where
  "gp_iter jac x x_train beta hs kern_types k_inv_training pred_var compute_grads acc i =
     (case acc of (mu_all, pred_sigma_all, jac_mu_all) \<Rightarrow>
      case nth_err kern_types i of Inl e \<Rightarrow> Inl e | Inr kt \<Rightarrow>
      case get_kernel_function kt of Inl e \<Rightarrow> Inl e | Inr kern_i \<Rightarrow>
      let beta_i = col beta i in
      case nth_err hs i of Inl e \<Rightarrow> Inl e | Inr hyp_i \<Rightarrow>
      case (case k_inv_training of None \<Rightarrow> Inr None
            | Some ks \<Rightarrow> (case nth_err ks i of Inl e \<Rightarrow> Inl e | Inr k \<Rightarrow> Inr (Some k)))
      of Inl e \<Rightarrow> Inl e | Inr k_inv_i \<Rightarrow>
      case gp_pred x kern_i beta_i x_train hyp_i k_inv_i pred_var of Inl e \<Rightarrow> Inl e
      | Inr (mu_1, sigma_opt) \<Rightarrow>
      case (if pred_var
            then (case sigma_opt of None \<Rightarrow> Inl TypeError
                  | Some pred_sigma \<Rightarrow> horzcat pred_sigma pred_sigma_all)
            else Inr pred_sigma_all)
      of Inl e \<Rightarrow> Inl e | Inr pred_sigma_all' \<Rightarrow>
      case horzcat mu_all mu_1 of Inl e \<Rightarrow> Inl e | Inr mu_all' \<Rightarrow>
      case (if compute_grads
            then vertcat jac_mu_all
                   (jac (pred_mean_fn kern_i beta_i x_train hyp_i k_inv_i pred_var) x)
            else Inr jac_mu_all)
      of Inl e \<Rightarrow> Inl e | Inr jac_mu_all' \<Rightarrow>
      Inr (mu_all', pred_sigma_all', jac_mu_all'))"

fun gp_loop ::
  "('s \<Rightarrow> nat \<Rightarrow> error + 's) \<Rightarrow> 's \<Rightarrow> nat list \<Rightarrow> error + 's" where
  "gp_loop step acc [] = Inr acc"
| "gp_loop step acc (i # rest) =
     (case step acc i of Inl e \<Rightarrow> Inl e | Inr acc' \<Rightarrow> gp_loop step acc' rest)"

definition gp_pred_function ::
  "jacobian_op \<Rightarrow> mat \<Rightarrow> mat \<Rightarrow> mat \<Rightarrow> hyp list \<Rightarrow> string list \<Rightarrow> mat list option \<Rightarrow>
   bool \<Rightarrow> bool \<Rightarrow> error + (string \<rightharpoonup> mat)" where
  "gp_pred_function jac x x_train beta hs kern_types k_inv_training pred_var compute_grads =
     (let n_gps = nc beta in
      case gp_loop (gp_iter jac x x_train beta hs kern_types k_inv_training pred_var compute_grads)
             (empty_m, empty_m, empty_m) [0..<n_gps]
      of Inl e \<Rightarrow> Inl e
      | Inr (mu_all, pred_sigma_all, jac_mu_all) \<Rightarrow>
        let d1 = Map.empty(''pred_mu'' \<mapsto> mu_all);
            d2 = (if pred_var then d1(''pred_sigma'' \<mapsto> pred_sigma_all) else d1);
            d3 = (if compute_grads then d2(''jac_mu'' \<mapsto> jac_mu_all) else d2)
        in Inr d3)"



section \<open>gaussian\_process.py\<close>

text \<open>
  The training data a \<open>MultiOutputGP\<close> holds. \<open>set_train_data\<close> returns what it raises
  together with the model it leaves behind.
\<close>

record multi_output_gp =
  train_inputs :: "mat list"
  train_targets :: mat

definition set_train_data ::
  "multi_output_gp \<Rightarrow> mat option \<Rightarrow> mat option \<Rightarrow> bool \<Rightarrow> (error + unit) \<times> multi_output_gp" where
  "set_train_data self inputs targets strict = (Inl NotImplementedError, self)"

text \<open>
  The names a function body resolves in the namespace of the module. The module binds
  what it imports and defines: \<open>from hessian import compute_hessian\<close> binds
  \<open>compute_hessian\<close> and not \<open>hessian\<close>, and nothing binds \<open>np\<close> or \<open>state\<close>.
\<close>

datatype pyobj = Module | Callable | Array mat

definition module_globals :: "string \<rightharpoonup> pyobj" where
  "module_globals =
     [''torch'' \<mapsto> Module, ''ModuleList'' \<mapsto> Callable, ''gpytorch'' \<mapsto> Module,
      ''MultivariateNormal'' \<mapsto> Callable, ''StateSpaceModel'' \<mapsto> Callable,
      ''compute_hessian'' \<mapsto> Callable, ''compute_jacobian'' \<mapsto> Callable,
      ''BatchMean'' \<mapsto> Callable, ''BatchKernel'' \<mapsto> Callable, ''LinearMean'' \<mapsto> Callable,
      ''WrappedNormal'' \<mapsto> Callable, ''MultiOutputGP'' \<mapsto> Callable,
      ''GPytorchSSM'' \<mapsto> Callable]"

text \<open>
  \<open>torch.stack((a, b), dim=1)\<close> of two matrices: the shapes must agree, and entry
  \<open>i\<close> of the result holds row \<open>i\<close> of \<open>a\<close> and row \<open>i\<close> of \<open>b\<close>.
\<close>

type_synonym tensor = "real list list list"

definition stack_dim1 :: "mat \<Rightarrow> mat \<Rightarrow> error + tensor" where
  "stack_dim1 a b =
     (if nr a = nr b \<and> nc a = nc b
      then Inr (map (\<lambda>i. [elts a ! i, elts b ! i]) [0..<nr a])
      else Inl RuntimeError)"

text \<open>
  The state space model: its dimensions and the mean and kernel modules of its
  Gaussian process, which belong to the external library and return arrays of a type
  \<open>'a\<close>. \<open>compute_jacobian\<close> and the Hessian of an entry of the mean are parameters too.
\<close>

record 'a gpytorch_ssm =
  num_states :: nat
  num_actions :: nat
  gp_mean :: "tensor \<Rightarrow> error + 'a"
  gp_kernel :: "tensor \<Rightarrow> error + 'a"

datatype 'a pyret =
  PyNone
  | Tup2 'a 'a
  | Tup4 'a 'a 'a 'a
  | Tup5 'a 'a 'a 'a "'a list"

type_synonym 'a jacobian_fn = "(tensor \<Rightarrow> error + 'a) \<Rightarrow> tensor \<Rightarrow> error + 'a"

type_synonym 'a hessian_fn = "(tensor \<Rightarrow> error + 'a) \<Rightarrow> nat \<Rightarrow> tensor \<Rightarrow> error + 'a"

text \<open>The branch for \<open>jacobians = False\<close> evaluates the pair and returns nothing.\<close>

definition predict ::
  "'a gpytorch_ssm \<Rightarrow> 'a jacobian_fn \<Rightarrow> mat \<Rightarrow> mat \<Rightarrow> bool \<Rightarrow> bool \<Rightarrow> error + 'a pyret" where
  "predict self compute_jacobian states actions jacobians full_cov =
     (case stack_dim1 states actions of Inl e \<Rightarrow> Inl e | Inr inp \<Rightarrow>
      case gp_mean self inp of Inl e \<Rightarrow> Inl e | Inr pred_mean \<Rightarrow>
      case gp_kernel self inp of Inl e \<Rightarrow> Inl e | Inr pred_var \<Rightarrow>
      if jacobians then
        (case compute_jacobian (gp_mean self) inp of Inl e \<Rightarrow> Inl e | Inr jac_mean \<Rightarrow>
         case compute_jacobian (gp_kernel self) inp of Inl e \<Rightarrow> Inl e | Inr jac_var \<Rightarrow>
         Inr (Tup4 pred_mean pred_var jac_mean jac_var))
      else Inr PyNone)"

text \<open>The loop of \<open>_compute_hessian_mean\<close>: each round resolves the name \<open>hessian\<close>.\<close>

fun hessian_rows ::
  "(string \<rightharpoonup> pyobj) \<Rightarrow> 'a hessian_fn \<Rightarrow> (tensor \<Rightarrow> error + 'a) \<Rightarrow> tensor \<Rightarrow> nat list \<Rightarrow>
   error + 'a list" where
  "hessian_rows G hess mean inp [] = Inr []"
| "hessian_rows G hess mean inp (i # rest) =
     (case G ''hessian'' of None \<Rightarrow> Inl NameError | Some m \<Rightarrow>
      case hess mean i inp of Inl e \<Rightarrow> Inl e | Inr h \<Rightarrow>
      case hessian_rows G hess mean inp rest of Inl e \<Rightarrow> Inl e | Inr hs \<Rightarrow> Inr (h # hs))"

definition compute_hessian_mean ::
  "(string \<rightharpoonup> pyobj) \<Rightarrow> 'a gpytorch_ssm \<Rightarrow> 'a hessian_fn \<Rightarrow> mat \<Rightarrow> mat \<Rightarrow> error + 'a list" where
  "compute_hessian_mean G self hess states actions =
     (case stack_dim1 states actions of Inl e \<Rightarrow> Inl e | Inr inp \<Rightarrow>
      hessian_rows G hess (gp_mean self) inp [0..<num_states self])"

text \<open>
  \<open>N, n = np.shape(state)\<close> resolves \<open>np\<close> and then \<open>state\<close>, a name that is neither a
  parameter nor a local of the function; unpacking the shape of anything but a
  two-dimensional array fails.
\<close>

definition linearize_predict ::
  "(string \<rightharpoonup> pyobj) \<Rightarrow> 'a gpytorch_ssm \<Rightarrow> 'a jacobian_fn \<Rightarrow> 'a hessian_fn \<Rightarrow>
   mat \<Rightarrow> mat \<Rightarrow> bool \<Rightarrow> bool \<Rightarrow> error + 'a pyret" where
  "linearize_predict G self compute_jacobian hess states actions jacobians full_cov =
     (case G ''np'' of None \<Rightarrow> Inl NameError | Some np \<Rightarrow>
      case G ''state'' of None \<Rightarrow> Inl NameError
      | Some Module \<Rightarrow> Inl ValueError
      | Some Callable \<Rightarrow> Inl ValueError
      | Some (Array state) \<Rightarrow>
      let N = nr state; n = nc state in
      if jacobians \<and> n > 1 then Inl NotImplementedError
      else
        case predict self compute_jacobian states actions jacobians False of
          Inl e \<Rightarrow> Inl e
        | Inr out \<Rightarrow>
          if jacobians then
            (case compute_hessian_mean G self hess states actions of Inl e \<Rightarrow> Inl e
             | Inr hess_mean \<Rightarrow>
               (case out of Tup4 a b c d \<Rightarrow> Inr (Tup5 a b c d hess_mean)
                | _ \<Rightarrow> Inl TypeError))
          else
            (case out of PyNone \<Rightarrow> Inl TypeError
             | Tup2 a b \<Rightarrow> Inr (Tup2 a b)
             | Tup4 a b c d \<Rightarrow> Inr (Tup2 a b)
             | Tup5 a b c d hs \<Rightarrow> Inr (Tup2 a b)))"


section \<open>Facts about the matrix operations\<close>

lemma nr_tab [simp]: "nr (tab n m f) = n" by (simp add: tab_def)
lemma nc_tab [simp]: "nc (tab n m f) = m" by (simp add: tab_def)
lemma el_tab [simp]: "i < n \<Longrightarrow> j < m \<Longrightarrow> el (tab n m f) i j = f i j"
  by (simp add: tab_def el_def)
lemma wf_tab [simp]: "wf_mat (tab n m f)"
  by (simp add: wf_mat_def tab_def list_all_iff)
lemma tab_cong: "(\<And>i j. i < n \<Longrightarrow> j < m \<Longrightarrow> f i j = g i j) \<Longrightarrow> tab n m f = tab n m g"
  by (simp add: tab_def)
lemma tab_el: "wf_mat A \<Longrightarrow> tab (nr A) (nc A) (el A) = A"
  by (cases A) (auto simp: wf_mat_def tab_def el_def list_all_iff intro!: nth_equalityI)

lemma tab22: "tab 2 2 f = Mat 2 2 [[f 0 0, f 0 1], [f 1 0, f 1 1]]"
  by (simp add: tab_def upt_rec numeral_2_eq_2)

lemma ebin_same:
  "nr A = nr B \<Longrightarrow> nc A = nc B \<Longrightarrow>
   ebin f A B = Inr (tab (nr A) (nc A) (\<lambda>i j. f (el A i j) (el B i j)))"
  by (auto simp: ebin_def is_scalar_def intro!: tab_cong)

lemma ebin_bcast_left:
  "is_scalar A \<Longrightarrow> ebin f A B = Inr (tab (nr B) (nc B) (\<lambda>i j. f (el A 0 0) (el B i j)))"
  by (simp add: ebin_def)

lemma mtimes_prod:
  "nc A = nr B \<Longrightarrow> mtimes A B = Inr (matprod A B)"
  by (auto simp: mtimes_def emul_def ebin_def is_scalar_def matprod_def intro!: tab_cong)

lemma sum_sq_diff:
  fixes a b :: "nat \<Rightarrow> real"
  shows "- 2 * (\<Sum>k<d. a k * b k) + (\<Sum>k<d. (a k)^2) + (\<Sum>k<d. (b k)^2) = (\<Sum>k<d. (a k - b k)^2)"
  by (induction d) (auto simp: power2_diff algebra_simps)

lemma repmat_row:
  "repmat (reshape_row v) n 1 = tab n (length v) (\<lambda>i j. v ! j)"
  by (auto simp: repmat_def reshape_row_def el_def intro!: tab_cong)

lemma emap_tab: "emap g (tab n m f) = tab n m (\<lambda>i j. g (f i j))"
  by (auto simp: emap_def intro!: tab_cong)

lemma sum2_tab: "sum2 (tab n m f) = tab n 1 (\<lambda>i j. \<Sum>k<m. f i k)"
  by (auto simp: sum2_def intro!: tab_cong)

lemma mT_tab: "mT (tab n m f) = tab m n (\<lambda>i j. f j i)"
  by (auto simp: mT_def intro!: tab_cong)

lemma matprod_tab:
  "matprod (tab n m f) (tab m p g) = tab n p (\<lambda>i j. \<Sum>k<m. f i k * g k j)"
  by (auto simp: matprod_def intro!: tab_cong)

lemma repmat_col: "repmat (tab n 1 f) 1 m = tab n m (\<lambda>i j. f i 0)"
  by (auto simp: repmat_def intro!: tab_cong)

lemma repmat_rowv: "repmat (tab 1 m f) n 1 = tab n m (\<lambda>i j. f 0 j)"
  by (auto simp: repmat_def intro!: tab_cong)

lemma ebin_tab:
  "ebin h (tab n m f) (tab n m g) = Inr (tab n m (\<lambda>i j. h (f i j) (g i j)))"
  by (auto simp: ebin_same intro!: tab_cong)

lemma unscaled_dist_tab:
  "unscaled_dist (tab n d f) (tab m d g) =
     Inr (tab n m (\<lambda>i j. sqrt (\<Sum>k<d. (f i k - g j k)^2)))"
proof -
  have a: "mtimes (tab n d f) (mT (tab m d g)) = Inr (tab n m (\<lambda>i j. \<Sum>k<d. f i k * g j k))"
    by (simp add: mT_tab mtimes_prod matprod_tab)
  have b: "repmat (sum2 (sq_m (tab n d f))) 1 m = tab n m (\<lambda>i j. \<Sum>k<d. (f i k)^2)"
    unfolding sq_m_def emap_tab sum2_tab repmat_col ..
  have c: "repmat (mT (sum2 (sq_m (tab m d g)))) n 1 = tab n m (\<lambda>i j. \<Sum>k<d. (g j k)^2)"
    unfolding sq_m_def emap_tab sum2_tab mT_tab repmat_rowv ..
  have e: "\<And>i j. - 2 * (\<Sum>k<d. f i k * g j k) + (\<Sum>k<d. (f i k)^2) + (\<Sum>k<d. (g j k)^2)
      = (\<Sum>k<d. (f i k - g j k)^2)"
    by (rule sum_sq_diff)
  show ?thesis
    unfolding unscaled_dist_def Let_def nr_tab a b c sum.case smul_def emap_tab eadd_def ebin_tab
      sqrt_m_def e ..
qed

lemma k_rbf_tab:
  assumes "rbf_lengthscales h = Some lens" "rbf_variance h = Some s"
    "wf_mat x" "wf_mat y" "nc x = length lens" "nc y = length lens"
  shows "k_rbf x h (Some y) False =
     Inr (tab (nr x) (nr y)
       (\<lambda>i j. s * exp (- 1/2 * (\<Sum>d<length lens. ((el x i d - el y j d) / lens ! d)^2))))"
proof -
  have x: "x = tab (nr x) (length lens) (el x)" using tab_el[OF assms(3)] assms(5) by simp
  have y: "y = tab (nr y) (length lens) (el y)" using tab_el[OF assms(4)] assms(6) by simp
  have dx: "ediv x (repmat (reshape_row lens) (nr x) 1)
      = Inr (tab (nr x) (length lens) (\<lambda>i j. el x i j / lens ! j))"
    unfolding repmat_row ediv_def by (subst x) (simp only: ebin_tab)
  have dy: "ediv y (repmat (reshape_row lens) (nr y) 1)
      = Inr (tab (nr y) (length lens) (\<lambda>i j. el y i j / lens ! j))"
    unfolding repmat_row ediv_def by (subst y) (simp only: ebin_tab)
  have nn: "\<And>i j. 0 \<le> (\<Sum>k<length lens. (el x i k / lens ! k - el y j k / lens ! k)^2)"
    by (rule sum_nonneg) simp
  show ?thesis
    unfolding k_rbf_def assms(1,2) option.case Let_def if_False dx dy sum.case unscaled_dist_tab
      sq_m_def exp_m_def smul_def emap_tab
    by (simp add: nn diff_divide_distrib)
qed

section \<open>The RBF kernel\<close>

text \<open>
  C2: for point sets \<open>x\<close> and \<open>y\<close> whose rows have as many entries as there are length
  scales, the RBF kernel returns the matrix with one row for every point of \<open>x\<close> and one
  column for every point of \<open>y\<close>, whose entry \<open>(i, j)\<close> is the variance times the
  exponential of minus half the sum over the dimensions of the squared scaled
  differences; with \<open>y\<close> omitted it is the kernel of \<open>x\<close> with itself.
\<close>

theorem k_rbf_entries:
  assumes "wf_mat x" and "wf_mat y"
    and "nc x = length lens" and "nc y = length lens"
    and "rbf_lengthscales h = Some lens" and "rbf_variance h = Some s"
    and "\<forall>l\<in>set lens. l \<noteq> 0"
  shows "\<exists>K. k_rbf x h (Some y) False = Inr K \<and> wf_mat K \<and> nr K = nr x \<and> nc K = nr y \<and>
      (\<forall>i<nr x. \<forall>j<nr y. el K i j =
          s * exp (- 1/2 * (\<Sum>d<length lens. ((el x i d - el y j d) / lens ! d)^2))) \<and>
      k_rbf x h None False = k_rbf x h (Some x) False"
proof -
  have "k_rbf x h None False = k_rbf x h (Some x) False"
    by (simp add: k_rbf_def Let_def split: option.splits)
  then show ?thesis
    using k_rbf_tab[OF assms(5,6,1,2,3,4)] by simp
qed

theorem k_rbf_entries_witness:
  "\<exists>K. k_rbf (Mat 2 1 [[0], [1]]) \<lparr>rbf_lengthscales = Some [2], rbf_variance = Some 3,
            lin_variances = None\<rparr> (Some (Mat 1 1 [[1]])) False = Inr K \<and>
       nr K = 2 \<and> nc K = 1 \<and> el K 0 0 = 3 * exp (- 1/8) \<and> el K 1 0 = 3"
  using k_rbf_entries[of "Mat 2 1 [[0], [1]]" "Mat 1 1 [[1]]" "[2]"
      "\<lparr>rbf_lengthscales = Some [2], rbf_variance = Some 3, lin_variances = None\<rparr>" 3]
  by (auto simp: wf_mat_def el_def power2_eq_square)

section \<open>Kernels with the diagonal flag\<close>

lemma k_lin_ignores_diag_only: "k_lin x h y True = k_lin x h y False"
  by (simp add: k_lin_def)

lemma k_rbf_diag_only:
  "rbf_lengthscales h = Some lens \<Longrightarrow> rbf_variance h = Some s \<Longrightarrow>
   k_rbf x h y True = Inr (Mat 1 1 [[s]])"
  by (simp add: k_rbf_def SX_num_def assign_all_def tab_def)

lemma k_lin_tab:
  assumes "lin_variances h = Some var" "wf_mat x" "nc x = length var"
  shows "k_lin x h None d =
     Inr (tab (nr x) (nr x)
       (\<lambda>i j. \<Sum>k<length var. (el x i k * sqrt (var ! k)) * (el x j k * sqrt (var ! k))))"
proof -
  have x: "x = tab (nr x) (length var) (el x)" using tab_el[OF assms(2)] assms(3) by simp
  have v: "sqrt_m (repmat (reshape_row var) (nr x) 1) = tab (nr x) (length var) (\<lambda>i j. sqrt (var ! j))"
    unfolding repmat_row sqrt_m_def emap_tab ..
  have e: "emul x (tab (nr x) (length var) (\<lambda>i j. sqrt (var ! j)))
      = Inr (tab (nr x) (length var) (\<lambda>i j. el x i j * sqrt (var ! j)))"
    unfolding emul_def by (subst x) (simp only: ebin_tab)
  have m: "mtimes (tab (nr x) (length var) (\<lambda>i j. el x i j * sqrt (var ! j)))
             (mT (tab (nr x) (length var) (\<lambda>i j. el x i j * sqrt (var ! j))))
      = Inr (tab (nr x) (nr x)
       (\<lambda>i j. \<Sum>k<length var. (el x i k * sqrt (var ! k)) * (el x j k * sqrt (var ! k))))"
    by (simp add: mT_tab mtimes_prod matprod_tab)
  show ?thesis
    unfolding k_lin_def assms(1) option.case Let_def prod.case v e sum.case m ..
qed

text \<open>
  C4: a kernel called with \<open>diag_only\<close> is expected to return the diagonal of its full
  matrix, one entry for every row of the input. On two points the linear kernel and the
  product kernel return the full \<open>2 \<times> 2\<close> matrix, and the RBF kernel a \<open>1 \<times> 1\<close> matrix.
\<close>

theorem diag_only_full_matrix:
  "k_lin (Mat 2 1 [[1], [2]])
      \<lparr>rbf_lengthscales = Some [1], rbf_variance = Some 1, lin_variances = Some [1]\<rparr>
      None True = Inr (Mat 2 2 [[1, 2], [2, 4]]) \<and>
   k_prod_lin_rbf (Mat 2 1 [[1], [2]])
      \<lparr>rbf_lengthscales = Some [1], rbf_variance = Some 1, lin_variances = Some [1]\<rparr>
      None True = Inr (Mat 2 2 [[1, 2], [2, 4]]) \<and>
   k_rbf (Mat 2 1 [[1], [2]])
      \<lparr>rbf_lengthscales = Some [1], rbf_variance = Some 1, lin_variances = Some [1]\<rparr>
      None True = Inr (Mat 1 1 [[1]])"
proof -
  let ?h = "\<lparr>rbf_lengthscales = Some [1], rbf_variance = Some 1, lin_variances = Some [1::real]\<rparr>"
  let ?x = "Mat 2 1 [[1], [2]]"
  have lin: "k_lin ?x ?h None True = Inr (Mat 2 2 [[1, 2], [2, 4]])"
    by (subst k_lin_tab[where var = "[1]"]) (simp_all add: wf_mat_def tab22 el_def)
  have rbf: "k_rbf ?x ?h None True = Inr (Mat 1 1 [[1]])"
    by (simp add: k_rbf_diag_only)
  have p: "emul (Mat 1 1 [[1]]) (Mat 2 2 [[1, 2], [2, 4]]) = Inr (Mat 2 2 [[1, 2], [2, 4]])"
    unfolding emul_def by (subst ebin_bcast_left) (simp_all add: is_scalar_def tab22 el_def)
  have prod: "k_prod_lin_rbf ?x ?h None True = Inr (Mat 2 2 [[1, 2], [2, 4]])"
    by (simp del: One_nat_def add: k_prod_lin_rbf_def lin rbf p)
  show ?thesis using lin prod rbf by simp
qed

section \<open>The prediction of one Gaussian process\<close>









section \<open>Evaluation at single points\<close>

lemma k_rbf_point:
  "k_rbf (Mat 1 1 [[0]]) \<lparr>rbf_lengthscales = Some [1], rbf_variance = Some v,
      lin_variances = lv\<rparr> (Some (Mat 1 1 [[0]])) False = Inr (Mat 1 1 [[v]])"
  by (subst k_rbf_tab[where lens = "[1]" and s = v])
     (simp_all add: wf_mat_def el_def tab_def)

lemma mtimes_11: "mtimes (Mat 1 1 [[a]]) (Mat 1 1 [[b]]) = Inr (Mat 1 1 [[a * b]])"
  by (subst mtimes_prod) (simp_all add: matprod_def tab_def el_def)

lemma emul_11: "emul (Mat 1 1 [[a]]) (Mat 1 1 [[b]]) = Inr (Mat 1 1 [[a * b]])"
  unfolding emul_def by (subst ebin_same) (simp_all add: tab_def el_def)

lemma esub_11: "esub (Mat 1 1 [[a]]) (Mat 1 1 [[b]]) = Inr (Mat 1 1 [[a - b]])"
  unfolding esub_def by (subst ebin_same) (simp_all add: tab_def el_def)

lemma sum2_11: "sum2 (Mat 1 1 [[a]]) = Mat 1 1 [[a]]"
  by (simp add: sum2_def tab_def el_def)

lemma gp_pred_rbf_point:
  "gp_pred (Mat 1 1 [[0]]) k_rbf (Mat 1 1 [[b]]) (Mat 1 1 [[0]])
     \<lparr>rbf_lengthscales = Some [1], rbf_variance = Some v, lin_variances = lv\<rparr>
     (Some (Mat 1 1 [[c]])) True = Inr (Mat 1 1 [[v * b]], Some (Mat 1 1 [[v - v * c * v]]))"
  by (simp del: One_nat_def
      add: gp_pred_def k_rbf_point k_rbf_diag_only mtimes_11 emul_11 esub_11 sum2_11)


subsection \<open>Errors of the prediction\<close>

text \<open>
  With a hyperparameter dictionary that lacks the keys of the kernel, \<open>gp_pred\<close> raises
  a KeyError, without the variance as well as with it and no inverse kernel matrix. With
  two training points and three coefficients the product of the \<open>1 \<times> 2\<close> kernel matrix
  with \<open>beta\<close> is a dimension mismatch, again without the variance.
\<close>

theorem gp_pred_raises_other_errors:
  "gp_pred (Mat 1 1 [[0]]) k_rbf (Mat 1 1 [[1]]) (Mat 1 1 [[0]])
      \<lparr>rbf_lengthscales = None, rbf_variance = None, lin_variances = None\<rparr> None False
     = Inl KeyError \<and>
   gp_pred (Mat 1 1 [[0]]) k_rbf (Mat 1 1 [[1]]) (Mat 1 1 [[0]])
      \<lparr>rbf_lengthscales = None, rbf_variance = None, lin_variances = None\<rparr> None True
     = Inl KeyError \<and>
   gp_pred (Mat 1 1 [[0]]) k_rbf (Mat 3 1 [[1], [1], [1]]) (Mat 2 1 [[0], [0]])
      \<lparr>rbf_lengthscales = Some [1], rbf_variance = Some 1, lin_variances = None\<rparr> None False
     = Inl RuntimeError"
proof -
  let ?h = "\<lparr>rbf_lengthscales = Some [1], rbf_variance = Some 1, lin_variances = None\<rparr>"
  have k: "k_rbf (Mat 1 1 [[0]]) ?h (Some (Mat 2 1 [[0], [0]])) False
      = Inr (tab 1 2 (\<lambda>i j. 1 * exp (- 1 / 2 * (\<Sum>d<length [1 :: real].
            ((el (Mat 1 1 [[0]]) i d - el (Mat 2 1 [[0], [0]]) j d) / [1] ! d)\<^sup>2))))"
    by (subst k_rbf_tab[where lens = "[1]" and s = 1]) (simp_all add: wf_mat_def)
  have m: "mtimes (tab 1 2 f) (Mat 3 1 [[1], [1], [1]]) = Inl RuntimeError" for f
    by (simp add: mtimes_def is_scalar_def)
  have "gp_pred (Mat 1 1 [[0]]) k_rbf (Mat 3 1 [[1], [1], [1]]) (Mat 2 1 [[0], [0]]) ?h None False
      = Inl RuntimeError"
    unfolding gp_pred_def k sum.case m ..
  then show ?thesis
    by (simp add: gp_pred_def k_rbf_def)
qed

text \<open>
  C8, amended: when the kernel returns on the input and the training points, its
  product with the coefficients is defined and the kernel raises no ValueError of its
  own, \<open>gp_pred\<close> raises ValueError exactly when the variance is asked for and no inverse
  kernel matrix is given; without the variance it returns the mean alone, whatever the
  inverse kernel matrix.
\<close>

theorem gp_pred_value_error:
  assumes "kern x h (Some x_train) False = Inr K"
    and "mtimes K beta = Inr mu"
    and "kern x h None True \<noteq> Inl ValueError"
  shows "(gp_pred x kern beta x_train h k_inv pred_var = Inl ValueError
            \<longleftrightarrow> pred_var \<and> k_inv = None) \<and>
         gp_pred x kern beta x_train h k_inv False = Inr (mu, None)"
proof -
  have ne: "ebin f A B \<noteq> Inl ValueError" for f A B
    by (simp add: ebin_def)
  have nm: "mtimes A B \<noteq> Inl ValueError" for A B
    by (simp add: mtimes_def emul_def ne)
  show ?thesis
    using assms(3) ne nm
    by (auto simp: gp_pred_def assms(1,2) emul_def esub_def split: option.splits sum.splits)
qed

theorem gp_pred_value_error_witness:
  "gp_pred (Mat 1 1 [[0]]) k_rbf (Mat 1 1 [[3]]) (Mat 1 1 [[0]])
      \<lparr>rbf_lengthscales = Some [1], rbf_variance = Some 2, lin_variances = None\<rparr>
      None True = Inl ValueError \<and>
   gp_pred (Mat 1 1 [[0]]) k_rbf (Mat 1 1 [[3]]) (Mat 1 1 [[0]])
      \<lparr>rbf_lengthscales = Some [1], rbf_variance = Some 2, lin_variances = None\<rparr>
      None False = Inr (Mat 1 1 [[6]], None)"
proof -
  let ?h = "\<lparr>rbf_lengthscales = Some [1], rbf_variance = Some 2, lin_variances = None\<rparr>"
  have a: "k_rbf (Mat 1 1 [[0]]) ?h (Some (Mat 1 1 [[0]])) False = Inr (Mat 1 1 [[2]])"
    by (rule k_rbf_point)
  have b: "mtimes (Mat 1 1 [[2]]) (Mat 1 1 [[3]]) = Inr (Mat 1 1 [[6]])"
    using mtimes_11[of 2 3] by simp
  have c: "k_rbf (Mat 1 1 [[0]]) ?h None True \<noteq> Inl ValueError"
    by (simp add: k_rbf_diag_only)
  show ?thesis
    using gp_pred_value_error[where kern = k_rbf and x = "Mat 1 1 [[0]]" and h = ?h
        and x_train = "Mat 1 1 [[0]]" and K = "Mat 1 1 [[2]]" and beta = "Mat 1 1 [[3]]"
        and mu = "Mat 1 1 [[6]]" and k_inv = None and pred_var = True, OF a b c]
    by simp
qed

section \<open>The multi-output wrapper\<close>

text \<open>
  \<open>vertcat\<close> of two non-empty matrices of equal width puts the rows of the second under
  the rows of the first.
\<close>

lemma vertcat_rows:
  assumes "wf_mat A" "wf_mat B" "\<not> is_empty A" "\<not> is_empty B" "nc A = nc B"
  shows "vertcat A B = Inr (Mat (nr A + nr B) (nc A) (elts A @ elts B))"
proof -
  have "map (\<lambda>i. map (\<lambda>j. if i < nr A then el A i j else el B (i - nr A) j) [0..<nc A])
          [0..<nr A + nr B] = elts A @ elts B"
  proof (rule nth_equalityI)
    show "length (map (\<lambda>i. map (\<lambda>j. if i < nr A then el A i j else el B (i - nr A) j) [0..<nc A])
          [0..<nr A + nr B]) = length (elts A @ elts B)"
      using assms by (simp add: wf_mat_def)
  next
    fix i
    assume "i < length (map (\<lambda>i. map (\<lambda>j. if i < nr A then el A i j else el B (i - nr A) j) [0..<nc A])
          [0..<nr A + nr B])"
    then have i: "i < nr A + nr B" by simp
    show "map (\<lambda>i. map (\<lambda>j. if i < nr A then el A i j else el B (i - nr A) j) [0..<nc A])
          [0..<nr A + nr B] ! i = (elts A @ elts B) ! i"
    proof (cases "i < nr A")
      case True
      then have "length (elts A ! i) = nc A"
        using assms(1) by (simp add: wf_mat_def list_all_length)
      then show ?thesis
        using True i assms(1)
        by (auto simp: wf_mat_def nth_append el_def intro!: nth_equalityI)
    next
      case False
      then have "length (elts B ! (i - nr A)) = nc A"
        using assms(2,5) i by (simp add: wf_mat_def list_all_length)
      then show ?thesis
        using False i assms(1,2)
        by (auto simp: wf_mat_def nth_append el_def intro!: nth_equalityI)
    qed
  qed
  then show ?thesis
    using assms by (simp add: vertcat_def tab_def)
qed




lemma col_12:
  "col (Mat 1 2 [[a, b]]) 0 = Mat 1 1 [[a]]" "col (Mat 1 2 [[a, b]]) 1 = Mat 1 1 [[b]]"
  by (simp_all add: col_def tab_def el_def)

lemma horzcat_empty:
  "horzcat empty_m B = Inr B" "horzcat (Mat 1 1 [[a]]) empty_m = Inr (Mat 1 1 [[a]])"
  by (simp_all add: horzcat_def is_empty_def empty_m_def)

lemma horzcat_11: "horzcat (Mat 1 1 [[a]]) (Mat 1 1 [[b]]) = Inr (Mat 1 2 [[a, b]])"
  by (simp add: horzcat_def is_empty_def tab_def el_def upt_rec numeral_2_eq_2)



lemma upt_two: "[0..<2] = [0, 1]"
  by (simp add: upt_rec numeral_2_eq_2)

text \<open>
  C3: column \<open>i\<close> of pred\_sigma is expected to be the variance of the \<open>i\<close>-th process.
  With two processes of variances \<open>1/2\<close> and \<open>1\<close>, pred\_mu is in the order of the
  outputs and pred\_sigma is in the opposite order.
\<close>

theorem pred_sigma_reversed:
  "gp_pred_function (\<lambda>f z. empty_m) (Mat 1 1 [[0]]) (Mat 1 1 [[0]]) (Mat 1 2 [[1, 1]])
     [\<lparr>rbf_lengthscales = Some [1], rbf_variance = Some 1, lin_variances = None\<rparr>,
      \<lparr>rbf_lengthscales = Some [1], rbf_variance = Some 2, lin_variances = None\<rparr>]
     [''rbf'', ''rbf''] (Some [Mat 1 1 [[1/2]], Mat 1 1 [[1/4]]]) True False
   = Inr [''pred_mu'' \<mapsto> Mat 1 2 [[1, 2]], ''pred_sigma'' \<mapsto> Mat 1 2 [[1, 1/2]]] \<and>
   gp_pred (Mat 1 1 [[0]]) k_rbf (col (Mat 1 2 [[1, 1]]) 0) (Mat 1 1 [[0]])
     \<lparr>rbf_lengthscales = Some [1], rbf_variance = Some 1, lin_variances = None\<rparr>
     (Some (Mat 1 1 [[1/2]])) True = Inr (Mat 1 1 [[1]], Some (Mat 1 1 [[1/2]])) \<and>
   gp_pred (Mat 1 1 [[0]]) k_rbf (col (Mat 1 2 [[1, 1]]) 1) (Mat 1 1 [[0]])
     \<lparr>rbf_lengthscales = Some [1], rbf_variance = Some 2, lin_variances = None\<rparr>
     (Some (Mat 1 1 [[1/4]])) True = Inr (Mat 1 1 [[2]], Some (Mat 1 1 [[1]]))"
proof -
  let ?h1 = "\<lparr>rbf_lengthscales = Some [1], rbf_variance = Some 1, lin_variances = None\<rparr>"
  let ?h2 = "\<lparr>rbf_lengthscales = Some [1], rbf_variance = Some 2, lin_variances = None\<rparr>"
  let ?X = "Mat 1 1 [[0]]"
  let ?B = "Mat 1 2 [[1, 1]]"
  let ?step = "gp_iter (\<lambda>f z. empty_m) ?X ?X ?B [?h1, ?h2] [''rbf'', ''rbf'']
       (Some [Mat 1 1 [[1/2]], Mat 1 1 [[1/4]]]) True False"
  have g0: "gp_pred ?X k_rbf (col ?B 0) ?X ?h1 (Some (Mat 1 1 [[1/2]])) True
      = Inr (Mat 1 1 [[1]], Some (Mat 1 1 [[1/2]]))"
    using gp_pred_rbf_point[of 1 1 None "1/2"] by (simp del: One_nat_def add: col_12)
  have g1: "gp_pred ?X k_rbf (col ?B 1) ?X ?h2 (Some (Mat 1 1 [[1/4]])) True
      = Inr (Mat 1 1 [[2]], Some (Mat 1 1 [[1]]))"
    using gp_pred_rbf_point[of 1 2 None "1/4"] by (simp del: One_nat_def add: col_12)
  have s0: "?step (empty_m, empty_m, empty_m) 0
      = Inr (Mat 1 1 [[1]], Mat 1 1 [[1/2]], empty_m)"
    by (simp del: One_nat_def
        add: gp_iter_def nth_err_def get_kernel_function_def g0 horzcat_empty)
  have s1: "?step (Mat 1 1 [[1]], Mat 1 1 [[1/2]], empty_m) 1
      = Inr (Mat 1 2 [[1, 2]], Mat 1 2 [[1, 1/2]], empty_m)"
    by (simp del: One_nat_def
        add: gp_iter_def nth_err_def get_kernel_function_def g1 horzcat_11)
  have "gp_loop ?step (empty_m, empty_m, empty_m) [0..<nc ?B]
      = Inr (Mat 1 2 [[1, 2]], Mat 1 2 [[1, 1/2]], empty_m)"
    by (simp del: One_nat_def add: upt_two s0 s1)
  then have "gp_pred_function (\<lambda>f z. empty_m) ?X ?X ?B [?h1, ?h2] [''rbf'', ''rbf'']
       (Some [Mat 1 1 [[1/2]], Mat 1 1 [[1/4]]]) True False
     = Inr [''pred_mu'' \<mapsto> Mat 1 2 [[1, 2]], ''pred_sigma'' \<mapsto> Mat 1 2 [[1, 1/2]]]"
    by (simp del: One_nat_def add: gp_pred_function_def)
  with g0 g1 show ?thesis by blast
qed


section \<open>The state space model\<close>

lemma predict_with_jacobians:
  assumes "stack_dim1 states actions = Inr inp"
    and "gp_mean self inp = Inr m" and "gp_kernel self inp = Inr v"
    and "cj (gp_mean self) inp = Inr jm" and "cj (gp_kernel self) inp = Inr jv"
  shows "predict self cj states actions True full_cov = Inr (Tup4 m v jm jv)"
  by (simp add: predict_def assms)

lemma predict_never_a_pair:
  "predict self cj states actions False full_cov \<noteq> Inr (Tup2 m v)"
  by (simp add: predict_def split: sum.splits)

text \<open>
  C5: \<open>predict\<close> without Jacobians is expected to return the pair of mean and variance.
  It returns \<open>None\<close>.
\<close>

theorem predict_returns_none:
  "predict \<lparr>num_states = 1, num_actions = 1,
             gp_mean = (\<lambda>t. Inr (Mat 1 1 [[0]])), gp_kernel = (\<lambda>t. Inr (Mat 1 1 [[1]]))\<rparr>
     (\<lambda>f t. f t) (Mat 1 1 [[1]]) (Mat 1 1 [[2]]) False False = Inr PyNone"
  by (simp add: predict_def stack_dim1_def)

lemma unbound_names:
  "module_globals ''np'' = None" "module_globals ''state'' = None"
  "module_globals ''hessian'' = None"
  by (simp_all add: module_globals_def)

text \<open>
  C6: \<open>linearize_predict\<close> with Jacobians is expected to return mean, variance, both
  Jacobians and the Hessian of the mean. In the namespace of the module every call
  raises NameError.
\<close>

theorem linearize_predict_name_error:
  "linearize_predict module_globals self cj hess states actions jacobians full_cov = Inl NameError"
  by (simp add: linearize_predict_def unbound_names)

lemma linearize_predict_rejects_wide_state:
  "G ''np'' = Some Module \<Longrightarrow> G ''state'' = Some (Array states) \<Longrightarrow> 1 < nc states \<Longrightarrow>
   linearize_predict G self cj hess states actions True full_cov = Inl NotImplementedError"
  by (simp add: linearize_predict_def)

lemma compute_hessian_mean_name_error:
  "G ''hessian'' = None \<Longrightarrow> 0 < num_states self \<Longrightarrow>
   stack_dim1 states actions = Inr inp \<Longrightarrow>
   compute_hessian_mean G self hess states actions = Inl NameError"
  by (cases "num_states self") (simp_all add: compute_hessian_mean_def upt_rec)

text \<open>
  C10: \<open>set_train_data\<close> raises NotImplementedError for all arguments and leaves the
  training data of the model as they were.
\<close>

theorem set_train_data_raises:
  "fst (set_train_data self inputs targets strict) = Inl NotImplementedError \<and>
   train_inputs (snd (set_train_data self inputs targets strict)) = train_inputs self \<and>
   train_targets (snd (set_train_data self inputs targets strict)) = train_targets self"
  by (simp add: set_train_data_def)

section \<open>Kernel lookup\<close>

text \<open>
  C9: the kernel lookup returns the RBF kernel for the string rbf, the product kernel for
  the string prod\_lin\_rbf, and raises ValueError for every other string.
\<close>

theorem get_kernel_function_cases:
  "get_kernel_function ''rbf'' = Inr k_rbf \<and>
   get_kernel_function ''prod_lin_rbf'' = Inr k_prod_lin_rbf \<and>
   (\<forall>s. s \<noteq> ''rbf'' \<and> s \<noteq> ''prod_lin_rbf'' \<longrightarrow> get_kernel_function s = Inl ValueError)"
  by (simp add: get_kernel_function_def)

theorem get_kernel_function_cases_witness:
  "get_kernel_function ''rbf'' = Inr k_rbf \<and>
   get_kernel_function ''prod_lin_rbf'' = Inr k_prod_lin_rbf \<and>
   ''lin'' \<noteq> ''rbf'' \<and> ''lin'' \<noteq> ''prod_lin_rbf'' \<and>
   get_kernel_function ''lin'' = Inl ValueError"
  using get_kernel_function_cases by simp

end
